theory Spec2Isabelle
  imports Complex_Main
begin

text \<open>
  A model of the two pages of the application: the login page, of which only the request
  helper \<^verbatim>\<open>fetchJSON\<close> is modelled, and the evaluation page
  (\<^verbatim>\<open>src/app/evaluation/page.tsx\<close>) with its request helper, its upload and
  evaluate handlers and the polling loop of \<^verbatim>\<open>pollResult\<close>. What the network, the
  clock and \<^verbatim>\<open>Math.random\<close> produce is an input of each step. A handler, and one run of
  the timer callback, is one step: the awaits inside it are not interleaved with other
  steps.
\<close>

section \<open>JavaScript values\<close>

text \<open>
  Both pages cast the parsed response body to its interface type without any check
  (\<^verbatim>\<open>return data as T\<close>), so what the handlers read at run time is whatever JSON the
  server sent. The model therefore works on untyped JavaScript values.

  A number is the real a finite double denotes, or one of the two infinities that
  \<^verbatim>\<open>JSON.parse\<close> yields for literals beyond the double range. The model only ever
  asks whether a number is zero.
\<close>

datatype jsnumber = Finite real | PosInfinity | NegInfinity

datatype jsval =
    JUndefined
  | JNull
  | JBool bool
  | JNum jsnumber
  | JStr string
  | JArr "jsval list"
  | JObj "(string \<times> jsval) list"

text \<open>The exceptions thrown in the two pages are all \<^verbatim>\<open>Error\<close> objects (or the
  subclass \<^verbatim>\<open>TypeError\<close>); the handlers read nothing but \<^verbatim>\<open>err.message\<close>.\<close>

datatype exn = Error (message: string)

text \<open>
  What the pages use of the JavaScript engine and is not repository code:
  \<^verbatim>\<open>JSON.parse\<close> (\<open>None\<close>: it throws a SyntaxError), the string conversion that
  \<^verbatim>\<open>new Error(x)\<close> applies to a message \<open>x\<close> that is not a string, and the message of
  the TypeError raised by reading property \<open>p\<close> of \<^verbatim>\<open>null\<close> or \<^verbatim>\<open>undefined\<close>.
  Theorems hold for every engine.
\<close>

record platform =
  JSON_parse :: "string \<Rightarrow> jsval option"
  ToString :: "jsval \<Rightarrow> string"
  TypeError_message :: "jsval \<Rightarrow> string \<Rightarrow> string"

text \<open>Truthiness, as \<^verbatim>\<open>||\<close>, \<^verbatim>\<open>!\<close> and \<^verbatim>\<open>?:\<close> test it.\<close>

fun truthy :: "jsval \<Rightarrow> bool" where
  "truthy JUndefined = False"
| "truthy JNull = False"
| "truthy (JBool b) = b"
| "truthy (JNum n) = (n \<noteq> Finite 0)"
| "truthy (JStr s) = (s \<noteq> [])"
| "truthy (JArr xs) = True"
| "truthy (JObj kvs) = True"

text \<open>\<^verbatim>\<open>a || b\<close>\<close>

definition js_or :: "jsval \<Rightarrow> jsval \<Rightarrow> jsval" where
  "js_or a b = (if truthy a then a else b)"

text \<open>
  Reading one of the properties the pages read (\<^verbatim>\<open>status\<close>, \<^verbatim>\<open>result\<close>,
  \<^verbatim>\<open>error\<close>, \<^verbatim>\<open>id\<close>, \<^verbatim>\<open>cv_file_id\<close>, \<^verbatim>\<open>project_file_id\<close>) of a value that is
  neither \<^verbatim>\<open>null\<close> nor \<^verbatim>\<open>undefined\<close>: the member of an object, \<^verbatim>\<open>undefined\<close>
  when the object has no such member or the value is a primitive or an array.
\<close>

fun get_field :: "jsval \<Rightarrow> string \<Rightarrow> jsval" where
  "get_field (JObj kvs) p = (case map_of kvs p of Some v \<Rightarrow> v | None \<Rightarrow> JUndefined)"
| "get_field v p = JUndefined"

text \<open>\<^verbatim>\<open>v.p\<close>: a TypeError on \<^verbatim>\<open>null\<close> and \<^verbatim>\<open>undefined\<close>.\<close>

definition get_prop :: "platform \<Rightarrow> jsval \<Rightarrow> string \<Rightarrow> exn + jsval" where
  "get_prop js v p =
     (if v = JNull \<or> v = JUndefined then Inl (Error (TypeError_message js v p))
      else Inr (get_field v p))"

text \<open>\<^verbatim>\<open>v?.p\<close>\<close>

definition opt_prop :: "jsval \<Rightarrow> string \<Rightarrow> jsval" where
  "opt_prop v p = (if v = JNull \<or> v = JUndefined then JUndefined else get_field v p)"

text \<open>The conversion of a value to a string: a string is itself, anything else is
  converted by the engine.\<close>

definition to_string :: "platform \<Rightarrow> jsval \<Rightarrow> string" where
  "to_string js x = (case x of JStr s \<Rightarrow> s | _ \<Rightarrow> ToString js x)"

text \<open>\<^verbatim>\<open>new Error(x)\<close> for an \<open>x\<close> that is not \<^verbatim>\<open>undefined\<close>: the message is \<open>x\<close>
  converted to a string.\<close>

definition new_Error :: "platform \<Rightarrow> jsval \<Rightarrow> exn" where
  "new_Error js x = Error (to_string js x)"

section \<open>The HTTP request helper\<close>

text \<open>
  A response as \<^verbatim>\<open>fetch\<close> resolves with it: the status code, the status text and what
  awaiting \<^verbatim>\<open>res.text()\<close> gives (the body, or the error it rejects with when the
  connection breaks while the body is read). \<^verbatim>\<open>fetch\<close> itself rejects when the request
  cannot be made.
\<close>

record response =
  res_status :: int
  res_statusText :: string
  res_text :: "exn + string"

datatype fetch_result = Rejected exn | Resolved response

text \<open>\<^verbatim>\<open>res.ok\<close>, as the Fetch standard defines it: the status is in the range 200 to 299.\<close>

definition res_ok :: "response \<Rightarrow> bool" where
  "res_ok res = (200 \<le> res_status res \<and> res_status res \<le> 299)"

text \<open>
  Lines shared by the two copies of \<^verbatim>\<open>fetchJSON\<close>:
  \<^verbatim>\<open>let data: any = {}; try { data = text ? JSON.parse(text) : {}; } catch {}\<close>
\<close>

definition parse_body :: "platform \<Rightarrow> string \<Rightarrow> jsval" where
  "parse_body js t =
     (if t \<noteq> [] then (case JSON_parse js t of Some v \<Rightarrow> v | None \<Rightarrow> JObj [])
      else JObj [])"

text \<open>\<^verbatim>\<open>new Error(data?.error || res.statusText || "Request failed")\<close>\<close>

definition request_error :: "platform \<Rightarrow> jsval \<Rightarrow> response \<Rightarrow> exn" where
  "request_error js data res =
     new_Error js
       (js_or (js_or (opt_prop data ''error'') (JStr (res_statusText res)))
              (JStr ''Request failed''))"

text \<open>
  \<^verbatim>\<open>fetchJSON\<close> of the evaluation page (lines 41 to 49), given what its \<^verbatim>\<open>fetch\<close>
  call produced. \<open>Inl\<close> is the exception the returned promise rejects with. The status
  404 is tested before the body is read.
\<close>

definition fetchJSON :: "platform \<Rightarrow> fetch_result \<Rightarrow> exn + jsval" where
  "fetchJSON js fr =
     (case fr of
        Rejected e \<Rightarrow> Inl e
      | Resolved res \<Rightarrow>
          if res_status res = 404 then Inl (Error ''404'')
          else (case res_text res of
                  Inl e \<Rightarrow> Inl e
                | Inr t \<Rightarrow>
                    let data = parse_body js t
                    in if \<not> res_ok res then Inl (request_error js data res)
                       else Inr data))"


section \<open>The evaluation page\<close>

text \<open>
  The variables of one call of \<^verbatim>\<open>pollResult\<close> that its timer callback closes over:
  the job id, \<^verbatim>\<open>progressValue\<close> and \<^verbatim>\<open>startTime\<close> (milliseconds, as
  \<^verbatim>\<open>Date.now()\<close> gives them). A progress value is the real that the double of the
  source denotes; the rounding of the double arithmetic is not modelled.
\<close>

record poll =
  job_id :: jsval
  progressValue :: real
  startTime :: int

text \<open>
  The state of the page: the selected files, the file handles, and the four pieces of
  React state the polling writes. The timers that \<^verbatim>\<open>setInterval\<close> has started and
  \<^verbatim>\<open>clearInterval\<close> has not yet cleared are kept by handle, each with the closure of
  its \<^verbatim>\<open>pollResult\<close> call; \<open>next_handle\<close> is the handle the next \<^verbatim>\<open>setInterval\<close>
  returns. The token, the tenant id and the two text fields only go into the requests,
  whose outcome is an input of the model, and are left out.
\<close>

type_synonym js_file = string

record page =
  cv :: "js_file option"
  project :: "js_file option"
  cvId :: jsval
  projectId :: jsval
  status :: jsval
  result :: jsval
  error :: jsval
  progress :: real
  intervals :: "nat \<rightharpoonup> poll"
  next_handle :: nat

definition initial_page :: page where
  "initial_page =
     \<lparr>cv = None, project = None, cvId = JStr [], projectId = JStr [],
      status = JStr ''idle'', result = JNull, error = JStr [], progress = 0,
      intervals = Map.empty, next_handle = 0\<rparr>"

definition setInterval :: "poll \<Rightarrow> page \<Rightarrow> page" where
  "setInterval c s =
     s\<lparr>intervals := (intervals s)(next_handle s \<mapsto> c), next_handle := Suc (next_handle s)\<rparr>"

definition clearInterval :: "nat \<Rightarrow> page \<Rightarrow> page" where
  "clearInterval h s = s\<lparr>intervals := (intervals s)(h := None)\<rparr>"

subsection \<open>Upload\<close>

text \<open>
  \<^verbatim>\<open>handleUpload\<close> (lines 83 to 101), given the outcome of its request. The function
  has no \<^verbatim>\<open>try\<close>: the second component is the exception its promise rejects with, which
  nothing handles; the first is the state it leaves.
\<close>

definition handleUpload :: "platform \<Rightarrow> fetch_result \<Rightarrow> page \<Rightarrow> page \<times> exn option" where
  "handleUpload js fr s =
     (if cv s = None \<or> project s = None
      then (s\<lparr>error := JStr ''Select both CV and Project files''\<rparr>, None)
      else
        let s1 = s\<lparr>error := JStr []\<rparr>
        in (case fetchJSON js fr of
              Inl e \<Rightarrow> (s1, Some e)
            | Inr res \<Rightarrow>
                (case get_prop js res ''cv_file_id'' of
                   Inl e \<Rightarrow> (s1, Some e)
                 | Inr a \<Rightarrow> (s1\<lparr>cvId := a, projectId := get_field res ''project_file_id''\<rparr>, None))))"

subsection \<open>Polling\<close>

text \<open>\<^verbatim>\<open>pollResult(id)\<close> (lines 131 to 174), called at time \<open>t\<close>: it starts a timer
  whose callback closes over a fresh \<^verbatim>\<open>progressValue\<close> and the start time, and returns.
  The handle of the timer is a local constant of the call.\<close>

definition pollResult :: "jsval \<Rightarrow> int \<Rightarrow> page \<Rightarrow> page" where
  "pollResult i t s = setInterval \<lparr>job_id = i, progressValue = 0, startTime = t\<rparr> s"

text \<open>
  \<^verbatim>\<open>handleEvaluate\<close> (lines 103 to 129), given the outcome of its request and the time
  at which the response arrives. Its \<^verbatim>\<open>try\<close> covers the request, the read of
  \<^verbatim>\<open>res.id\<close> and the call of \<^verbatim>\<open>pollResult\<close>. It clears no timer.
\<close>

definition handleEvaluate :: "platform \<Rightarrow> fetch_result \<Rightarrow> int \<Rightarrow> page \<Rightarrow> page" where
  "handleEvaluate js fr t s =
     (let s1 = s\<lparr>error := JStr [], status := JStr ''queued'', result := JNull, progress := 0\<rparr>
      in case fetchJSON js fr of
           Inl e \<Rightarrow> s1\<lparr>error := JStr (message e)\<rparr>
         | Inr res \<Rightarrow>
             (case get_prop js res ''id'' of
                Inl e \<Rightarrow> s1\<lparr>error := JStr (message e)\<rparr>
              | Inr i \<Rightarrow> pollResult i t s1))"

text \<open>
  What one run of the timer callback receives: the outcome of its request, the value
  \<^verbatim>\<open>Math.random()\<close> returns if it is called, and the value of \<^verbatim>\<open>Date.now()\<close> at the
  timeout check. One run of the callback, from the request to the timeout check, is one
  step of the model, as it is when every response arrives before the timer fires again.
\<close>

record tick_event =
  outcome :: fetch_result
  Math_random :: real
  Date_now :: int

definition maxWait :: int where
  "maxWait = 90000"

text \<open>The assignment to \<^verbatim>\<open>progressValue\<close> followed by \<^verbatim>\<open>setProgress(progressValue)\<close>,
  in the callback of timer \<open>h\<close> with closure \<open>c\<close>.\<close>

definition advance :: "nat \<Rightarrow> poll \<Rightarrow> real \<Rightarrow> real \<Rightarrow> page \<Rightarrow> page" where
  "advance h c inc cap s =
     (let v = min (progressValue c + inc) cap
      in s\<lparr>progress := v, intervals := (intervals s)(h \<mapsto> c\<lparr>progressValue := v\<rparr>)\<rparr>)"

text \<open>The \<^verbatim>\<open>try\<close> block of the callback after the request has returned \<open>res\<close> (lines
  145 to 157). Once \<^verbatim>\<open>res.status\<close> has been read, \<open>res\<close> is neither \<^verbatim>\<open>null\<close> nor
  \<^verbatim>\<open>undefined\<close>, and the reads of \<^verbatim>\<open>res.result\<close> and \<^verbatim>\<open>res.error\<close> cannot throw; the
  \<^verbatim>\<open>!\<close> after \<^verbatim>\<open>res.result\<close> is erased by the compiler.\<close>

definition on_response :: "platform \<Rightarrow> nat \<Rightarrow> poll \<Rightarrow> real \<Rightarrow> jsval \<Rightarrow> page \<Rightarrow> exn + page" where
  "on_response js h c r res s =
     (case get_prop js res ''status'' of
        Inl e \<Rightarrow> Inl e
      | Inr st \<Rightarrow>
          let s1 = s\<lparr>status := st\<rparr>
          in if st = JStr ''completed''
             then Inr (clearInterval h (s1\<lparr>result := get_field res ''result'', progress := 100\<rparr>))
             else if st = JStr ''failed''
             then Inr (clearInterval h
                   (s1\<lparr>error := js_or (get_field res ''error'') (JStr ''Evaluation failed'')\<rparr>))
             else Inr (advance h c (r * 8) 95 s1))"

text \<open>The \<^verbatim>\<open>catch\<close> block of the callback (lines 158 to 167).\<close>

definition on_error :: "nat \<Rightarrow> poll \<Rightarrow> real \<Rightarrow> exn \<Rightarrow> page \<Rightarrow> page" where
  "on_error h c r e s =
     (if message e = ''404'' then advance h c (r * 5) 85 s
      else clearInterval h (s\<lparr>error := JStr (message e)\<rparr>))"

text \<open>
  One run of the callback of timer \<open>h\<close> (lines 136 to 173). A timer that is not active
  does not fire. An exception leaves the \<^verbatim>\<open>try\<close> block before the block has written
  any state: the request and the read of \<^verbatim>\<open>res.status\<close> come first, and nothing after
  them throws. The timeout check follows the \<^verbatim>\<open>try\<close> statement and runs in every case.
\<close>

definition tick :: "platform \<Rightarrow> nat \<Rightarrow> tick_event \<Rightarrow> page \<Rightarrow> page" where
  "tick js h ev s =
     (case intervals s h of
        None \<Rightarrow> s
      | Some c \<Rightarrow>
          let s1 = (case fetchJSON js (outcome ev) of
                      Inl e \<Rightarrow> on_error h c (Math_random ev) e s
                    | Inr res \<Rightarrow>
                        (case on_response js h c (Math_random ev) res s of
                           Inl e \<Rightarrow> on_error h c (Math_random ev) e s
                         | Inr s' \<Rightarrow> s'))
          in if Date_now ev - startTime c > maxWait
             then clearInterval h
                    (s1\<lparr>error := JStr ''Evaluation timed out. Please try again later.''\<rparr>)
             else s1)"

text \<open>The successive runs of the callback of timer \<open>h\<close>.\<close>

fun ticks :: "platform \<Rightarrow> nat \<Rightarrow> tick_event list \<Rightarrow> page \<Rightarrow> page" where
  "ticks js h [] s = s"
| "ticks js h (ev # evs) s = ticks js h evs (tick js h ev s)"

text \<open>
  The states the page can be in: from the initial state, the user selects files, uploads
  and starts evaluations, and active timers fire. The button that starts an evaluation
  is disabled while a file handle is missing
  (\<^verbatim>\<open>disabled={!cvId || !projectId || !jobDesc || !brief}\<close>; the two text fields are
  not part of the model), and stays enabled while a polling loop runs.
  \<^verbatim>\<open>Math.random()\<close> returns a value in \<open>[0, 1)\<close>.
\<close>

inductive reachable :: "platform \<Rightarrow> page \<Rightarrow> bool" for js :: platform where
  r_init: "reachable js initial_page"
| r_setCv: "reachable js s \<Longrightarrow> reachable js (s\<lparr>cv := f\<rparr>)"
| r_setProject: "reachable js s \<Longrightarrow> reachable js (s\<lparr>project := f\<rparr>)"
| r_upload: "reachable js s \<Longrightarrow> reachable js (fst (handleUpload js fr s))"
| r_evaluate: "reachable js s \<Longrightarrow> truthy (cvId s) \<Longrightarrow> truthy (projectId s) \<Longrightarrow>
               reachable js (handleEvaluate js fr t s)"
| r_tick: "reachable js s \<Longrightarrow> 0 \<le> Math_random ev \<Longrightarrow> Math_random ev < 1 \<Longrightarrow>
           reachable js (tick js h ev s)"

section \<open>Predicates used in the statements\<close>

text \<open>
  An invariant of the reachable states: the handle of every active timer is below
  \<open>next_handle\<close>, and its \<^verbatim>\<open>progressValue\<close> is between 0 and 95.
\<close>

definition page_inv :: "page \<Rightarrow> bool" where
  "page_inv s =
     (\<forall>h c. intervals s h = Some c \<longrightarrow>
        h < next_handle s \<and> 0 \<le> progressValue c \<and> progressValue c \<le> 95)"

text \<open>
  The request of a tick brings no terminal status: it fails with the message
  \<^verbatim>\<open>"404"\<close>, or it returns a response whose \<^verbatim>\<open>status\<close> is neither
  \<^verbatim>\<open>"completed"\<close> nor \<^verbatim>\<open>"failed"\<close>.
\<close>

definition pending :: "platform \<Rightarrow> tick_event \<Rightarrow> bool" where
  "pending js ev =
     (case fetchJSON js (outcome ev) of
        Inl e \<Rightarrow> e = Error ''404''
      | Inr res \<Rightarrow>
          (case get_prop js res ''status'' of
             Inl e \<Rightarrow> False
           | Inr st \<Rightarrow> st \<noteq> JStr ''completed'' \<and> st \<noteq> JStr ''failed''))"

section \<open>Example inputs\<close>

text \<open>The response bodies of the examples, and the values \<^verbatim>\<open>JSON.parse\<close> gives for them.\<close>

definition body_queued :: string where
  \<open>body_queued = ''{"id":"job-1","status":"queued"}''\<close>

definition body_processing :: string where
  \<open>body_processing = ''{"id":"job-1","status":"processing"}''\<close>

definition body_completed :: string where
  \<open>body_completed = ''{"id":"job-1","status":"completed","result":{"cv_match_rate":0.75,"cv_feedback":"Strong backend skills","project_score":8.5,"project_feedback":"Clear report","overall_summary":"Good fit"}}''\<close>

definition body_completed_bare :: string where
  \<open>body_completed_bare = ''{"id":"job-1","status":"completed"}''\<close>

definition body_failed :: string where
  \<open>body_failed = ''{"id":"job-1","status":"failed","error":"bad input"}''\<close>

definition body_uploaded :: string where
  \<open>body_uploaded = ''{"cv_file_id":"cv-1","project_file_id":"report-1"}''\<close>

definition body_error_404 :: string where
  \<open>body_error_404 = ''{"error":"404"}''\<close>

definition payload :: jsval where
  "payload = JObj [(''cv_match_rate'', JNum (Finite (3/4))),
                   (''cv_feedback'', JStr ''Strong backend skills''),
                   (''project_score'', JNum (Finite (17/2))),
                   (''project_feedback'', JStr ''Clear report''),
                   (''overall_summary'', JStr ''Good fit'')]"

definition resp_queued :: jsval where
  "resp_queued = JObj [(''id'', JStr ''job-1''), (''status'', JStr ''queued'')]"

definition resp_processing :: jsval where
  "resp_processing = JObj [(''id'', JStr ''job-1''), (''status'', JStr ''processing'')]"

definition resp_completed :: jsval where
  "resp_completed =
     JObj [(''id'', JStr ''job-1''), (''status'', JStr ''completed''), (''result'', payload)]"

definition resp_completed_bare :: jsval where
  "resp_completed_bare = JObj [(''id'', JStr ''job-1''), (''status'', JStr ''completed'')]"

definition resp_failed :: jsval where
  "resp_failed =
     JObj [(''id'', JStr ''job-1''), (''status'', JStr ''failed''), (''error'', JStr ''bad input'')]"

definition resp_uploaded :: jsval where
  "resp_uploaded = JObj [(''cv_file_id'', JStr ''cv-1''), (''project_file_id'', JStr ''report-1'')]"

definition example_parse :: "string \<Rightarrow> jsval option" where
  "example_parse = map_of
     [(body_uploaded, resp_uploaded),
      (body_queued, resp_queued),
      (body_processing, resp_processing),
      (body_completed, resp_completed),
      (body_completed_bare, resp_completed_bare),
      (body_failed, resp_failed),
      (body_error_404, JObj [(''error'', JStr ''404'')])]"

text \<open>
  An engine for the examples. Its \<^verbatim>\<open>JSON.parse\<close> gives the values above for the bodies
  above and throws on every other text (the only other text the examples parse is
  \<^verbatim>\<open><html>\<close>). The examples convert nothing but strings to a string, so its conversion
  is never called; it is the one of objects. The TypeError message is the one of V8.
\<close>

definition engine :: platform where
  "engine =
     \<lparr>JSON_parse = example_parse,
      ToString = (\<lambda>v. ''[object Object]''),
      TypeError_message = (\<lambda>v p.
        ''Cannot read properties of '' @ (if v = JNull then ''null'' else ''undefined'') @
        '' (reading '' @ [CHR 0x27] @ p @ [CHR 0x27] @ '')'')\<rparr>"

text \<open>A response with the given status code, status text and body.\<close>

definition http :: "int \<Rightarrow> string \<Rightarrow> string \<Rightarrow> fetch_result" where
  "http code reason body =
     Resolved \<lparr>res_status = code, res_statusText = reason, res_text = Inr body\<rparr>"

text \<open>A tick answered with status 200 and the given body, and a tick answered with
  status 404, each with the value of \<^verbatim>\<open>Math.random()\<close> and the time of the timeout check.\<close>

definition answered :: "string \<Rightarrow> real \<Rightarrow> int \<Rightarrow> tick_event" where
  "answered body r t = \<lparr>outcome = http 200 ''OK'' body, Math_random = r, Date_now = t\<rparr>"

definition not_found :: "real \<Rightarrow> int \<Rightarrow> tick_event" where
  "not_found r t = \<lparr>outcome = http 404 ''Not Found'' [], Math_random = r, Date_now = t\<rparr>"

text \<open>The page with both files selected, and after their upload.\<close>

definition files_selected :: page where
  "files_selected = initial_page\<lparr>cv := Some ''cv.pdf'', project := Some ''report.pdf''\<rparr>"

definition uploaded :: page where
  "uploaded = fst (handleUpload engine (http 200 ''OK'' body_uploaded) files_selected)"

text \<open>The page after an evaluation was then submitted and accepted as job-1 at time 0,
  and the closure of its polling loop.\<close>

definition submitted :: page where
  "submitted = handleEvaluate engine (http 200 ''OK'' body_queued) 0 uploaded"

definition first_loop :: poll where
  "first_loop = \<lparr>job_id = JStr ''job-1'', progressValue = 0, startTime = 0\<rparr>"

text \<open>The same page after twelve ticks answered \<^verbatim>\<open>processing\<close>, 2.5 seconds apart, each
  with the random value 15/16.\<close>

definition warmed :: page where
  "warmed =
     ticks engine 0
       [answered body_processing (15/16) 2500, answered body_processing (15/16) 5000,
        answered body_processing (15/16) 7500, answered body_processing (15/16) 10000,
        answered body_processing (15/16) 12500, answered body_processing (15/16) 15000,
        answered body_processing (15/16) 17500, answered body_processing (15/16) 20000,
        answered body_processing (15/16) 22500, answered body_processing (15/16) 25000,
        answered body_processing (15/16) 27500, answered body_processing (15/16) 30000]
       submitted"

section \<open>Lemmas\<close>

subsection \<open>The request helper\<close>

lemma to_string_str: "to_string js (JStr m) = m"
  by (simp add: to_string_def)

lemma request_error_message:
  "request_error js data res =
     Error (if truthy (opt_prop data ''error'') then to_string js (opt_prop data ''error'')
            else if res_statusText res \<noteq> [] then res_statusText res
            else ''Request failed'')"
  by (simp add: request_error_def new_Error_def js_or_def to_string_str)

lemma parse_body_cases:
  "parse_body js [] = JObj []"
  "JSON_parse js t = None \<Longrightarrow> parse_body js t = JObj []"
  "t \<noteq> [] \<Longrightarrow> JSON_parse js t = Some v \<Longrightarrow> parse_body js t = v"
  by (simp_all add: parse_body_def)

lemma get_prop_status_field:
  "get_field res p = JStr x \<Longrightarrow> get_prop js res p = Inr (JStr x)"
  by (cases res) (simp_all add: get_prop_def)

subsection \<open>One run of the callback\<close>

lemmas tick_defs = tick_def on_response_def on_error_def advance_def clearInterval_def maxWait_def

lemma tick_inactive: "intervals s h = None \<Longrightarrow> tick js h ev s = s"
  by (simp add: tick_def)

lemma ticks_inactive: "intervals s h = None \<Longrightarrow> ticks js h evs s = s"
  by (induction evs) (simp_all add: tick_inactive)

lemma tick_other: "h' \<noteq> h \<Longrightarrow> intervals (tick js h ev s) h' = intervals s h'"
  by (auto simp: tick_defs Let_def split: option.splits sum.splits)

lemma tick_timeout:
  "intervals s h = Some c \<Longrightarrow> Date_now ev - startTime c > maxWait \<Longrightarrow>
   error (tick js h ev s) = JStr ''Evaluation timed out. Please try again later.'' \<and>
   intervals (tick js h ev s) h = None"
  by (simp add: tick_def clearInterval_def Let_def)

lemma tick_startTime:
  "intervals s h = Some c \<Longrightarrow> intervals (tick js h ev s) h = Some c' \<Longrightarrow>
   startTime c' = startTime c \<and> job_id c' = job_id c"
  by (auto simp: tick_defs Let_def split: option.splits sum.splits if_splits)

lemma tick_404:
  assumes "intervals s h = Some c" "fetchJSON js (outcome ev) = Inl (Error ''404'')"
  shows "tick js h ev s =
     (let s1 = advance h c (Math_random ev * 5) 85 s
      in if Date_now ev - startTime c > maxWait
         then clearInterval h (s1\<lparr>error := JStr ''Evaluation timed out. Please try again later.''\<rparr>)
         else s1)"
  using assms by (simp add: tick_def on_error_def)


lemma tick_completed:
  assumes "intervals s h = Some c" "fetchJSON js (outcome ev) = Inr res"
    "get_field res ''status'' = JStr ''completed''"
  shows "tick js h ev s =
     (let s1 = clearInterval h
                 (s\<lparr>status := JStr ''completed'', result := get_field res ''result'',
                    progress := 100\<rparr>)
      in if Date_now ev - startTime c > maxWait
         then clearInterval h (s1\<lparr>error := JStr ''Evaluation timed out. Please try again later.''\<rparr>)
         else s1)"
  using assms get_prop_status_field[OF assms(3), of js] by (simp add: tick_def on_response_def)

lemma tick_failed:
  assumes "intervals s h = Some c" "fetchJSON js (outcome ev) = Inr res"
    "get_field res ''status'' = JStr ''failed''"
  shows "tick js h ev s =
     (let s1 = clearInterval h
                 (s\<lparr>status := JStr ''failed'',
                    error := js_or (get_field res ''error'') (JStr ''Evaluation failed'')\<rparr>)
      in if Date_now ev - startTime c > maxWait
         then clearInterval h (s1\<lparr>error := JStr ''Evaluation timed out. Please try again later.''\<rparr>)
         else s1)"
  using assms get_prop_status_field[OF assms(3), of js] by (simp add: tick_def on_response_def)

lemma handleEvaluate_started:
  assumes "fetchJSON js fr = Inr res" "get_prop js res ''id'' = Inr i"
  shows "handleEvaluate js fr t s =
     pollResult i t
       (s\<lparr>error := JStr [], status := JStr ''queued'', result := JNull, progress := 0\<rparr>)"
  using assms by (simp add: handleEvaluate_def)

lemma handleUpload_intervals: "intervals (fst (handleUpload js fr s)) = intervals s"
  by (simp add: handleUpload_def Let_def split: sum.splits)

subsection \<open>The invariant\<close>

lemma inv_tick:
  "page_inv s \<Longrightarrow> 0 \<le> Math_random ev \<Longrightarrow> Math_random ev < 1 \<Longrightarrow> page_inv (tick js h ev s)"
  unfolding page_inv_def
  by (auto simp: tick_defs Let_def split: option.splits sum.splits if_splits)

lemma inv_evaluate: "page_inv s \<Longrightarrow> page_inv (handleEvaluate js fr t s)"
  unfolding page_inv_def
  by (auto simp: handleEvaluate_def pollResult_def setInterval_def Let_def less_Suc_eq
      split: option.splits sum.splits if_splits)

lemma inv_upload: "page_inv s \<Longrightarrow> page_inv (fst (handleUpload js fr s))"
  unfolding page_inv_def
  by (auto simp: handleUpload_def Let_def split: option.splits sum.splits if_splits)

lemma reachable_inv: "reachable js s \<Longrightarrow> page_inv s"
proof (induction rule: reachable.induct)
  case r_init
  then show ?case by (simp add: page_inv_def initial_page_def)
next
  case (r_setCv s f)
  then show ?case by (simp add: page_inv_def)
next
  case (r_setProject s f)
  then show ?case by (simp add: page_inv_def)
next
  case (r_upload s fr)
  then show ?case by (simp add: inv_upload)
next
  case (r_evaluate s fr t)
  then show ?case by (simp add: inv_evaluate)
next
  case (r_tick s ev h)
  then show ?case by (simp add: inv_tick)
qed

subsection \<open>Runs of a polling loop\<close>

lemma tick_pending_in_time:
  assumes "intervals s h = Some c" "pending js ev" "\<not> Date_now ev - startTime c > maxWait"
  shows "\<exists>c'. intervals (tick js h ev s) h = Some c' \<and> startTime c' = startTime c"
  using assms
  by (auto simp: pending_def tick_defs Let_def split: sum.splits)

lemma run_stops:
  "intervals s h = Some c \<Longrightarrow> \<exists>ev\<in>set evs. Date_now ev - startTime c > maxWait \<Longrightarrow>
   intervals (ticks js h evs s) h = None"
proof (induction evs arbitrary: s c)
  case Nil
  then show ?case by simp
next
  case (Cons ev evs)
  show ?case
  proof (cases "intervals (tick js h ev s) h")
    case None
    then show ?thesis by (simp add: ticks_inactive)
  next
    case (Some c')
    with Cons.prems(1) have st: "startTime c' = startTime c"
      using tick_startTime by blast
    have "\<not> Date_now ev - startTime c > maxWait"
      using tick_timeout[OF Cons.prems(1), of ev js] Some by auto
    with Cons.prems(2) have "\<exists>e\<in>set evs. Date_now e - startTime c' > maxWait"
      using st by auto
    from Cons.IH[OF Some this] show ?thesis by simp
  qed
qed

lemma run_timeout_error:
  "intervals s h = Some c \<Longrightarrow> \<exists>ev\<in>set evs. Date_now ev - startTime c > maxWait \<Longrightarrow>
   \<forall>ev\<in>set evs. pending js ev \<Longrightarrow>
   error (ticks js h evs s) = JStr ''Evaluation timed out. Please try again later.''"
proof (induction evs arbitrary: s c)
  case Nil
  then show ?case by simp
next
  case (Cons ev evs)
  show ?case
  proof (cases "Date_now ev - startTime c > maxWait")
    case True
    from tick_timeout[OF Cons.prems(1) True, of js]
    show ?thesis by (simp add: ticks_inactive)
  next
    case False
    have "pending js ev" using Cons.prems(3) by simp
    from tick_pending_in_time[OF Cons.prems(1) this False]
    obtain c' where c': "intervals (tick js h ev s) h = Some c'" "startTime c' = startTime c"
      by blast
    from Cons.prems(2) False have "\<exists>e\<in>set evs. Date_now e - startTime c' > maxWait"
      using c'(2) by auto
    moreover have "\<forall>e\<in>set evs. pending js e" using Cons.prems(3) by simp
    ultimately show ?thesis using Cons.IH[OF c'(1)] by simp
  qed
qed

text \<open>
  The timer fires no earlier than every 2.5 seconds: if the \<open>k\<close>-th run of the callback
  reaches its timeout check no earlier than \<open>2500 \<cdot> k\<close> ms after the start, the 37th run is
  past the 90 seconds, so the loop has stopped after 37 runs, whatever the server answers.
\<close>

lemma cadence_reaches_timeout:
  assumes "37 \<le> length evs"
    and "\<forall>k<length evs. startTime c + 2500 * (int k + 1) \<le> Date_now (evs ! k)"
  shows "\<exists>ev\<in>set evs. Date_now ev - startTime c > maxWait"
proof -
  have k: "36 < length evs" using assms(1) by simp
  then have "startTime c + 2500 * (int 36 + 1) \<le> Date_now (evs ! 36)"
    using assms(2) by blast
  then have "Date_now (evs ! 36) - startTime c > maxWait" by (simp add: maxWait_def)
  moreover have "evs ! 36 \<in> set evs" using k by simp
  ultimately show ?thesis by blast
qed

lemma poll_stops_within_37_ticks:
  assumes "intervals s h = Some c" "37 \<le> length evs"
    and "\<forall>k<length evs. startTime c + 2500 * (int k + 1) \<le> Date_now (evs ! k)"
  shows "intervals (ticks js h evs s) h = None"
  using run_stops[OF assms(1) cadence_reaches_timeout[OF assms(2,3)]] .

subsection \<open>The examples\<close>

lemmas bodies = body_uploaded_def body_queued_def body_processing_def body_completed_def body_completed_bare_def
  body_failed_def body_error_404_def

lemmas resps = resp_uploaded_def resp_queued_def resp_processing_def resp_completed_def resp_completed_bare_def
  resp_failed_def

lemma parse_examples:
  "JSON_parse engine body_uploaded = Some resp_uploaded"
  "JSON_parse engine body_queued = Some resp_queued"
  "JSON_parse engine body_processing = Some resp_processing"
  "JSON_parse engine body_completed = Some resp_completed"
  "JSON_parse engine body_completed_bare = Some resp_completed_bare"
  "JSON_parse engine body_failed = Some resp_failed"
  "JSON_parse engine body_error_404 = Some (JObj [(''error'', JStr ''404'')])"
  "JSON_parse engine ''<html>'' = None"
  by (simp_all add: engine_def example_parse_def bodies)

lemma bodies_nonempty:
  "body_uploaded \<noteq> []" "body_queued \<noteq> []" "body_processing \<noteq> []" "body_completed \<noteq> []"
  "body_completed_bare \<noteq> []" "body_failed \<noteq> []" "body_error_404 \<noteq> []"
  by (simp_all add: bodies)

lemma fetch_examples:
  "fetchJSON engine (http 200 ''OK'' body_uploaded) = Inr resp_uploaded"
  "fetchJSON engine (http 200 ''OK'' body_queued) = Inr resp_queued"
  "fetchJSON engine (http 200 ''OK'' body_processing) = Inr resp_processing"
  "fetchJSON engine (http 200 ''OK'' body_completed) = Inr resp_completed"
  "fetchJSON engine (http 200 ''OK'' body_completed_bare) = Inr resp_completed_bare"
  "fetchJSON engine (http 200 ''OK'' body_failed) = Inr resp_failed"
  "fetchJSON engine (http 404 ''Not Found'' []) = Inl (Error ''404'')"
  by (simp_all add: fetchJSON_def http_def parse_body_def res_ok_def parse_examples
      bodies_nonempty)

lemma uploaded_eq:
  "uploaded = files_selected\<lparr>cvId := JStr ''cv-1'', projectId := JStr ''report-1''\<rparr>"
  by (simp add: uploaded_def handleUpload_def files_selected_def initial_page_def fetch_examples
      get_prop_def resp_uploaded_def)

lemma submitted_eq:
  "submitted = files_selected\<lparr>cvId := JStr ''cv-1'', projectId := JStr ''report-1'',
      status := JStr ''queued'', intervals := [0 \<mapsto> first_loop], next_handle := 1\<rparr>"
  by (simp add: submitted_def uploaded_eq handleEvaluate_def fetch_examples get_prop_def
      pollResult_def setInterval_def files_selected_def initial_page_def first_loop_def
      resp_queued_def)

lemma submitted_loop: "intervals submitted 0 = Some first_loop"
  by (simp add: submitted_eq)

lemma reachable_uploaded: "reachable engine uploaded"
  unfolding uploaded_def files_selected_def
  by (intro r_upload r_setProject r_setCv r_init)

lemma reachable_submitted: "reachable engine submitted"
  unfolding submitted_def
  by (rule r_evaluate[OF reachable_uploaded]) (simp_all add: uploaded_eq)

lemmas run_simps = tick_def on_response_def on_error_def advance_def clearInterval_def
  maxWait_def Let_def get_prop_def js_or_def answered_def not_found_def fetch_examples
  submitted_eq first_loop_def files_selected_def initial_page_def resps

lemma warmed_eq:
  "warmed = submitted\<lparr>status := JStr ''processing'', progress := 90,
      intervals := [0 \<mapsto> first_loop\<lparr>progressValue := 90\<rparr>]\<rparr>"
  by (simp add: warmed_def run_simps)

section \<open>The claims\<close>

subsection \<open>C1: ticks answered 404\<close>

text \<open>
  C1 (as amended). Take a tick of an active polling loop, in a reachable state, whose
  request fails with the 404 condition. The tick leaves status and result as they were.
  If no more than 90 seconds have passed since the loop started, it leaves the error as
  it was and the loop running; past the 90 seconds it records the timeout message and
  stops the loop. If the progress value of the loop was at most 85 before the tick, the
  progress after the tick is at least that value and at most the smaller of that value
  plus 5 and 85. Further, across any tick that leaves the loop running, the progress
  value of the loop does not decrease, provided that it was at most 85 before the tick or
  that the request returned a response whose status could be read.
\<close>

theorem not_found_tick:
  assumes "reachable js s" "intervals s h = Some c"
    "0 \<le> Math_random ev" "Math_random ev < 1"
  shows "(fetchJSON js (outcome ev) = Inl (Error ''404'') \<longrightarrow>
            status (tick js h ev s) = status s \<and>
            result (tick js h ev s) = result s \<and>
            (if Date_now ev - startTime c > maxWait
             then error (tick js h ev s) = JStr ''Evaluation timed out. Please try again later.'' \<and>
                  intervals (tick js h ev s) h = None
             else error (tick js h ev s) = error s \<and>
                  intervals (tick js h ev s) h =
                    Some (c\<lparr>progressValue := progress (tick js h ev s)\<rparr>)) \<and>
            (progressValue c \<le> 85 \<longrightarrow>
               progressValue c \<le> progress (tick js h ev s) \<and>
               progress (tick js h ev s) \<le> min (progressValue c + 5) 85)) \<and>
         (progressValue c \<le> 85 \<or>
            (\<exists>res st. fetchJSON js (outcome ev) = Inr res \<and> get_prop js res ''status'' = Inr st) \<longrightarrow>
          (\<forall>c'. intervals (tick js h ev s) h = Some c' \<longrightarrow> progressValue c \<le> progressValue c'))"
proof -
  from reachable_inv[OF assms(1)] assms(2) have b: "progressValue c \<le> 95"
    by (auto simp: page_inv_def)
  have A: "status (tick js h ev s) = status s \<and>
            result (tick js h ev s) = result s \<and>
            (if Date_now ev - startTime c > maxWait
             then error (tick js h ev s) = JStr ''Evaluation timed out. Please try again later.'' \<and>
                  intervals (tick js h ev s) h = None
             else error (tick js h ev s) = error s \<and>
                  intervals (tick js h ev s) h =
                    Some (c\<lparr>progressValue := progress (tick js h ev s)\<rparr>)) \<and>
            (progressValue c \<le> 85 \<longrightarrow>
               progressValue c \<le> progress (tick js h ev s) \<and>
               progress (tick js h ev s) \<le> min (progressValue c + 5) 85)"
    if nf: "fetchJSON js (outcome ev) = Inl (Error ''404'')"
    using assms(3,4)
    by (auto simp: tick_404[OF assms(2) nf] advance_def clearInterval_def Let_def min_def)
  have B: "progressValue c \<le> progressValue c'"
    if "progressValue c \<le> 85 \<or>
          (\<exists>res st. fetchJSON js (outcome ev) = Inr res \<and> get_prop js res ''status'' = Inr st)"
      and "intervals (tick js h ev s) h = Some c'" for c'
    using that assms(2,3,4) b
    by (auto simp: tick_defs Let_def min_def split: sum.splits if_splits)
  show ?thesis using A B by blast
qed

text \<open>A first tick answered 404, 2.5 seconds after the submission, with the random
  value 1/2: the progress goes from 0 to 2.5 and the loop goes on.\<close>

theorem not_found_tick_witness:
  "reachable engine submitted \<and> intervals submitted 0 = Some first_loop \<and>
   fetchJSON engine (outcome (not_found (1/2) 2500)) = Inl (Error ''404'') \<and>
   status (tick engine 0 (not_found (1/2) 2500) submitted) = JStr ''queued'' \<and>
   error (tick engine 0 (not_found (1/2) 2500) submitted) = JStr [] \<and>
   progress (tick engine 0 (not_found (1/2) 2500) submitted) = 5/2 \<and>
   intervals (tick engine 0 (not_found (1/2) 2500) submitted) 0 =
     Some (first_loop\<lparr>progressValue := 5/2\<rparr>)"
proof -
  have r: "0 \<le> Math_random (not_found (1/2) 2500)" "Math_random (not_found (1/2) 2500) < 1"
    by (simp_all add: not_found_def)
  from not_found_tick[OF reachable_submitted submitted_loop r]
  show ?thesis using reachable_submitted submitted_loop
    by (simp add: run_simps)
qed

text \<open>
  The claim as stated fails twice. After twelve ticks answered \<^verbatim>\<open>processing\<close> the progress
  is 90; a tick answered 404 then sets it to 85. And a tick answered 404 later than 90
  seconds after the start records the timeout message and stops the loop.
\<close>

theorem not_found_tick_counterexample:
  "intervals warmed 0 = Some (first_loop\<lparr>progressValue := 90\<rparr>) \<and>
   progress warmed = 90 \<and>
   fetchJSON engine (outcome (not_found (1/2) 32500)) = Inl (Error ''404'') \<and>
   progress (tick engine 0 (not_found (1/2) 32500) warmed) = 85 \<and>
   fetchJSON engine (outcome (not_found (1/2) 92500)) = Inl (Error ''404'') \<and>
   intervals (tick engine 0 (not_found (1/2) 92500) submitted) 0 = None \<and>
   error (tick engine 0 (not_found (1/2) 92500) submitted) =
     JStr ''Evaluation timed out. Please try again later.''"
  by (simp add: warmed_eq run_simps)

subsection \<open>C2: one polling loop per evaluation\<close>

text \<open>
  C2 (as amended). Starting an evaluation never cancels or replaces a polling loop. In
  a reachable state, a call of handleEvaluate whose request returns a job id starts one
  more loop, under a handle no active loop has, with progress value 0 and its own start
  time, and leaves every other loop as it was. Afterwards a tick of one loop leaves every
  other loop as it was, and so does an upload: a loop is stopped only by a tick of its
  own.
\<close>

theorem handleEvaluate_adds_loop:
  assumes "reachable js s" "fetchJSON js fr = Inr res" "get_prop js res ''id'' = Inr i"
  shows "intervals s (next_handle s) = None \<and>
         intervals (handleEvaluate js fr t s) (next_handle s) =
           Some \<lparr>job_id = i, progressValue = 0, startTime = t\<rparr> \<and>
         (h \<noteq> next_handle s \<longrightarrow> intervals (handleEvaluate js fr t s) h = intervals s h) \<and>
         (h' \<noteq> k \<longrightarrow>
            intervals (tick js k ev (handleEvaluate js fr t s)) h' =
            intervals (handleEvaluate js fr t s) h') \<and>
         intervals (fst (handleUpload js fr' (handleEvaluate js fr t s))) =
           intervals (handleEvaluate js fr t s)"
proof -
  have "intervals s (next_handle s) = None"
    using reachable_inv[OF assms(1)]
    by (cases "intervals s (next_handle s)") (auto simp: page_inv_def)
  then show ?thesis
    by (simp add: handleEvaluate_started[OF assms(2,3)] pollResult_def setInterval_def tick_other
        handleUpload_intervals)
qed

text \<open>A second evaluation, submitted one second after the first: the first loop keeps
  running beside the new one, also after the new one has completed.\<close>

theorem handleEvaluate_adds_loop_witness:
  "reachable engine submitted \<and>
   fetchJSON engine (http 200 ''OK'' body_queued) = Inr resp_queued \<and>
   get_prop engine resp_queued ''id'' = Inr (JStr ''job-1'') \<and>
   next_handle submitted = 1 \<and> intervals submitted 1 = None \<and>
   intervals (handleEvaluate engine (http 200 ''OK'' body_queued) 1000 submitted) 1 =
     Some \<lparr>job_id = JStr ''job-1'', progressValue = 0, startTime = 1000\<rparr> \<and>
   intervals (handleEvaluate engine (http 200 ''OK'' body_queued) 1000 submitted) 0 =
     Some first_loop \<and>
   intervals (tick engine 1 (answered body_completed (1/2) 3500)
     (handleEvaluate engine (http 200 ''OK'' body_queued) 1000 submitted)) 0 = Some first_loop"
proof -
  have f: "fetchJSON engine (http 200 ''OK'' body_queued) = Inr resp_queued"
    by (simp add: fetch_examples)
  have g: "get_prop engine resp_queued ''id'' = Inr (JStr ''job-1'')"
    by (simp add: get_prop_def resp_queued_def)
  have n: "next_handle submitted = 1" by (simp add: submitted_eq)
  from handleEvaluate_adds_loop[OF reachable_submitted f g,
      where t = 1000 and h = 0 and h' = 0 and k = 1
        and ev = "answered body_completed (1/2) 3500"
        and fr' = "http 200 ''OK'' body_uploaded"]
  show ?thesis using reachable_submitted f g n submitted_loop
    by simp
qed

text \<open>
  The claim as stated fails: after two submissions, one second apart, the timers 0 and 1
  are both active, and both write the progress of the page: a tick of timer 0 sets it to
  4, the next tick of timer 1 sets it to 2.
\<close>

theorem two_loops_counterexample:
  "intervals (handleEvaluate engine (http 200 ''OK'' body_queued) 1000 submitted) 0 =
     Some first_loop \<and>
   intervals (handleEvaluate engine (http 200 ''OK'' body_queued) 1000 submitted) 1 =
     Some \<lparr>job_id = JStr ''job-1'', progressValue = 0, startTime = 1000\<rparr> \<and>
   progress (tick engine 0 (answered body_processing (1/2) 2500)
     (handleEvaluate engine (http 200 ''OK'' body_queued) 1000 submitted)) = 4 \<and>
   progress (tick engine 1 (answered body_processing (1/4) 3500)
     (tick engine 0 (answered body_processing (1/2) 2500)
       (handleEvaluate engine (http 200 ''OK'' body_queued) 1000 submitted))) = 2"
  by (simp add: handleEvaluate_def pollResult_def setInterval_def run_simps)

subsection \<open>C3: failures are caught where the action starts\<close>

text \<open>
  C3. The upload breaks the claim. With both files selected and the upload request
  answered 500 with an empty body, handleUpload clears the error and its promise rejects
  with the error of the request, which nothing catches: no message is shown. The same
  answer to handleEvaluate is caught and becomes the error shown.
\<close>

theorem handleUpload_uncaught:
  "handleUpload engine (http 500 ''Internal Server Error'' []) files_selected =
     (files_selected\<lparr>error := JStr []\<rparr>, Some (Error ''Internal Server Error'')) \<and>
   error (handleEvaluate engine (http 500 ''Internal Server Error'' []) 0 files_selected) =
     JStr ''Internal Server Error''"
  by (simp add: handleUpload_def handleEvaluate_def files_selected_def initial_page_def
      fetchJSON_def http_def parse_body_def res_ok_def request_error_message opt_prop_def)

subsection \<open>C4: the timeout\<close>

text \<open>
  C4. On a tick of an active polling loop, if more than 90 seconds have passed since the
  start time recorded when the loop was started, the timeout message is recorded and
  the timer is stopped, whatever the request of that tick produced. Hence a run of
  ticks that contains a tick later than 90 seconds after the start ends with the timer
  stopped; and when no request of the run brings a terminal status, it ends with the
  timeout message as the error.
\<close>

theorem poll_timeout:
  assumes "intervals s h = Some c"
  shows "(Date_now ev - startTime c > maxWait \<longrightarrow>
            error (tick js h ev s) = JStr ''Evaluation timed out. Please try again later.'' \<and>
            intervals (tick js h ev s) h = None) \<and>
         ((\<exists>e\<in>set evs. Date_now e - startTime c > maxWait) \<longrightarrow>
            intervals (ticks js h evs s) h = None \<and>
            ((\<forall>e\<in>set evs. pending js e) \<longrightarrow>
               error (ticks js h evs s) = JStr ''Evaluation timed out. Please try again later.''))"
  using tick_timeout[OF assms] run_stops[OF assms] run_timeout_error[OF assms]
  by blast

text \<open>A tick answered \<^verbatim>\<open>processing\<close> 92.5 seconds after the start, alone and at the end
  of a run that began with a tick answered 404.\<close>

theorem poll_timeout_witness:
  "intervals submitted 0 = Some first_loop \<and>
   Date_now (answered body_processing (1/2) 92500) - startTime first_loop > maxWait \<and>
   error (tick engine 0 (answered body_processing (1/2) 92500) submitted) =
     JStr ''Evaluation timed out. Please try again later.'' \<and>
   intervals (tick engine 0 (answered body_processing (1/2) 92500) submitted) 0 = None \<and>
   pending engine (not_found (1/2) 2500) \<and>
   pending engine (answered body_processing (1/2) 92500) \<and>
   intervals (ticks engine 0 [not_found (1/2) 2500, answered body_processing (1/2) 92500]
     submitted) 0 = None \<and>
   error (ticks engine 0 [not_found (1/2) 2500, answered body_processing (1/2) 92500]
     submitted) = JStr ''Evaluation timed out. Please try again later.''"
proof -
  let ?late = "answered body_processing (1/2) 92500"
  let ?early = "not_found (1/2) 2500"
  have t: "Date_now ?late - startTime first_loop > maxWait"
    by (simp add: answered_def first_loop_def maxWait_def)
  have p: "pending engine ?early" "pending engine ?late"
    by (simp_all add: pending_def answered_def not_found_def fetch_examples get_prop_def
        resp_processing_def)
  have e: "\<exists>e\<in>set [?early, ?late]. Date_now e - startTime first_loop > maxWait"
    using t by simp
  have a: "\<forall>e\<in>set [?early, ?late]. pending engine e"
    using p by simp
  from poll_timeout[OF submitted_loop, of ?late engine "[?early, ?late]"] t e a
  show ?thesis using submitted_loop p by simp
qed

subsection \<open>C5: ticks answered completed\<close>



subsection \<open>C6: ticks answered failed\<close>

text \<open>
  C6 (as amended). A tick of an active polling loop whose response has status failed
  sets the status to failed and stops the timer. If no more than 90 seconds have passed
  since the loop started, the error it leaves is the error member of the response when
  that member is truthy (a non-empty string), and the default message otherwise; past
  the 90 seconds the error it leaves is the timeout message.
\<close>

theorem failed_tick:
  assumes "intervals s h = Some c" "fetchJSON js (outcome ev) = Inr res"
    "get_field res ''status'' = JStr ''failed''"
  shows "status (tick js h ev s) = JStr ''failed'' \<and>
         intervals (tick js h ev s) h = None \<and>
         error (tick js h ev s) =
           (if Date_now ev - startTime c > maxWait
            then JStr ''Evaluation timed out. Please try again later.''
            else if truthy (get_field res ''error'') then get_field res ''error''
            else JStr ''Evaluation failed'')"
  by (simp add: tick_failed[OF assms] clearInterval_def Let_def js_or_def)

text \<open>A first tick answered \<^verbatim>\<open>failed\<close> with the error "bad input".\<close>

theorem failed_tick_witness:
  "intervals submitted 0 = Some first_loop \<and>
   fetchJSON engine (outcome (answered body_failed (1/2) 2500)) = Inr resp_failed \<and>
   get_field resp_failed ''status'' = JStr ''failed'' \<and>
   get_field resp_failed ''error'' = JStr ''bad input'' \<and>
   status (tick engine 0 (answered body_failed (1/2) 2500) submitted) = JStr ''failed'' \<and>
   intervals (tick engine 0 (answered body_failed (1/2) 2500) submitted) 0 = None \<and>
   error (tick engine 0 (answered body_failed (1/2) 2500) submitted) = JStr ''bad input''"
proof -
  have f: "fetchJSON engine (outcome (answered body_failed (1/2) 2500)) = Inr resp_failed"
    by (simp add: answered_def fetch_examples)
  have g: "get_field resp_failed ''status'' = JStr ''failed''"
    "get_field resp_failed ''error'' = JStr ''bad input''"
    by (simp_all add: resp_failed_def)
  have t: "\<not> Date_now (answered body_failed (1/2) 2500) - startTime first_loop > maxWait"
    by (simp add: answered_def first_loop_def maxWait_def)
  from failed_tick[OF submitted_loop f g(1)]
  show ?thesis using submitted_loop f g t by simp
qed

text \<open>The claim as stated fails: when the answer \<^verbatim>\<open>failed\<close> with the error "bad input"
  comes 92.5 seconds after the start, the error left by the tick is the timeout message.\<close>

theorem failed_tick_counterexample:
  "intervals submitted 0 = Some first_loop \<and>
   fetchJSON engine (outcome (answered body_failed (1/2) 92500)) = Inr resp_failed \<and>
   get_field resp_failed ''status'' = JStr ''failed'' \<and>
   get_field resp_failed ''error'' = JStr ''bad input'' \<and>
   error (tick engine 0 (answered body_failed (1/2) 92500) submitted) =
     JStr ''Evaluation timed out. Please try again later.''"
  by (simp add: run_simps)

subsection \<open>C7: ticks answered queued or processing\<close>




subsection \<open>C8: the request helper of the evaluation page\<close>

text \<open>
  C8 (as amended). For every response whose body has been read: if the status is exactly
  404, fetchJSON fails with the error whose message is "404"; otherwise, if the status is
  not in 200..299, it fails with an error whose message is the error member of the parsed
  body when that member is truthy, else the status text when it is not empty, else
  "Request failed"; otherwise it returns the parsed body. The parsed body of an empty
  text, or of a text on which JSON.parse throws, is the empty object.
\<close>

theorem fetchJSON_outcomes:
  assumes "res_text res = Inr t"
  shows "(res_status res = 404 \<longrightarrow> fetchJSON js (Resolved res) = Inl (Error ''404'')) \<and>
         (res_status res \<noteq> 404 \<and> \<not> res_ok res \<longrightarrow>
            fetchJSON js (Resolved res) =
              Inl (Error (if truthy (opt_prop (parse_body js t) ''error'')
                          then to_string js (opt_prop (parse_body js t) ''error'')
                          else if res_statusText res \<noteq> [] then res_statusText res
                          else ''Request failed''))) \<and>
         (res_ok res \<longrightarrow> fetchJSON js (Resolved res) = Inr (parse_body js t)) \<and>
         parse_body js [] = JObj [] \<and>
         (JSON_parse js t = None \<longrightarrow> parse_body js t = JObj []) \<and>
         (t \<noteq> [] \<and> JSON_parse js t = Some v \<longrightarrow> parse_body js t = v)"
  using assms
  by (simp add: fetchJSON_def request_error_message parse_body_cases Let_def res_ok_def)

text \<open>A 404, a 500 with a structured error, a 502 with a body that is not JSON, a 200
  with a JSON body and a 200 with a body that is not JSON.\<close>

theorem fetchJSON_outcomes_witness:
  "fetchJSON engine (http 404 ''Not Found'' []) = Inl (Error ''404'') \<and>
   fetchJSON engine (http 500 ''Internal Server Error'' body_failed) = Inl (Error ''bad input'') \<and>
   JSON_parse engine ''<html>'' = None \<and>
   fetchJSON engine (http 502 ''Bad Gateway'' ''<html>'') = Inl (Error ''Bad Gateway'') \<and>
   fetchJSON engine (http 200 ''OK'' body_queued) = Inr resp_queued \<and>
   fetchJSON engine (http 200 ''OK'' ''<html>'') = Inr (JObj [])"
proof -
  have p: "JSON_parse engine ''<html>'' = None" by (simp add: parse_examples)
  have q: "parse_body engine body_failed = resp_failed" "parse_body engine body_queued = resp_queued"
    by (simp_all add: parse_body_def parse_examples bodies_nonempty)
  have e: "opt_prop resp_failed ''error'' = JStr ''bad input''" "opt_prop (JObj []) ''error'' = JUndefined"
    by (simp_all add: opt_prop_def resp_failed_def)
  note w =
    fetchJSON_outcomes[of "\<lparr>res_status = 404, res_statusText = ''Not Found'', res_text = Inr []\<rparr>"
      "[]" engine]
    fetchJSON_outcomes[of "\<lparr>res_status = 500, res_statusText = ''Internal Server Error'',
      res_text = Inr body_failed\<rparr>" body_failed engine]
    fetchJSON_outcomes[of "\<lparr>res_status = 502, res_statusText = ''Bad Gateway'',
      res_text = Inr ''<html>''\<rparr>" "''<html>''" engine]
    fetchJSON_outcomes[of "\<lparr>res_status = 200, res_statusText = ''OK'',
      res_text = Inr body_queued\<rparr>" body_queued engine]
    fetchJSON_outcomes[of "\<lparr>res_status = 200, res_statusText = ''OK'',
      res_text = Inr ''<html>''\<rparr>" "''<html>''" engine]
  from w show ?thesis using p q e
    by (simp add: http_def res_ok_def to_string_str)
qed

text \<open>
  The claim as stated fails twice. A 500 whose body carries the error "404" fails with
  the very error a 404 fails with. And a 500 with an empty status text and an empty body
  fails with the message "Request failed", which is neither a message of the body nor the
  status text.
\<close>

theorem fetchJSON_counterexample:
  "fetchJSON engine (http 500 ''Internal Server Error'' body_error_404) = Inl (Error ''404'') \<and>
   fetchJSON engine (http 404 ''Not Found'' []) = Inl (Error ''404'') \<and>
   fetchJSON engine (http 500 [] []) = Inl (Error ''Request failed'')"
  by (simp add: fetchJSON_def http_def res_ok_def request_error_message parse_body_def
      parse_examples bodies_nonempty opt_prop_def to_string_str)

subsection \<open>C9: the request helper of the login page\<close>




subsection \<open>C10: completed without a result\<close>

text \<open>
  C10 (as amended). A tick of an active polling loop whose response has status completed
  and no result member sets the status to completed, the result to undefined and the
  progress to 100, and stops the timer; reading the absent member raises nothing. If no
  more than 90 seconds have passed since the loop started, the error is left as it was;
  past the 90 seconds the tick records the timeout message.
\<close>

theorem completed_without_result_tick:
  assumes "intervals s h = Some c" "fetchJSON js (outcome ev) = Inr res"
    "get_field res ''status'' = JStr ''completed''" "get_field res ''result'' = JUndefined"
  shows "status (tick js h ev s) = JStr ''completed'' \<and>
         result (tick js h ev s) = JUndefined \<and>
         progress (tick js h ev s) = 100 \<and>
         intervals (tick js h ev s) h = None \<and>
         error (tick js h ev s) =
           (if Date_now ev - startTime c > maxWait
            then JStr ''Evaluation timed out. Please try again later.''
            else error s)"
  using assms(4) by (simp add: tick_completed[OF assms(1-3)] clearInterval_def Let_def)

text \<open>A first tick answered \<^verbatim>\<open>completed\<close> without a result.\<close>

theorem completed_without_result_tick_witness:
  "intervals submitted 0 = Some first_loop \<and>
   fetchJSON engine (outcome (answered body_completed_bare (1/2) 2500)) = Inr resp_completed_bare \<and>
   get_field resp_completed_bare ''status'' = JStr ''completed'' \<and>
   get_field resp_completed_bare ''result'' = JUndefined \<and>
   status (tick engine 0 (answered body_completed_bare (1/2) 2500) submitted) = JStr ''completed'' \<and>
   result (tick engine 0 (answered body_completed_bare (1/2) 2500) submitted) = JUndefined \<and>
   progress (tick engine 0 (answered body_completed_bare (1/2) 2500) submitted) = 100 \<and>
   intervals (tick engine 0 (answered body_completed_bare (1/2) 2500) submitted) 0 = None \<and>
   error (tick engine 0 (answered body_completed_bare (1/2) 2500) submitted) = JStr []"
proof -
  let ?e = "answered body_completed_bare (1/2) 2500"
  have f: "fetchJSON engine (outcome ?e) = Inr resp_completed_bare"
    by (simp add: answered_def fetch_examples)
  have g: "get_field resp_completed_bare ''status'' = JStr ''completed''"
    "get_field resp_completed_bare ''result'' = JUndefined"
    by (simp_all add: resp_completed_bare_def)
  have t: "\<not> Date_now ?e - startTime first_loop > maxWait"
    by (simp add: answered_def first_loop_def maxWait_def)
  have e: "error submitted = JStr []"
    by (simp add: submitted_eq files_selected_def initial_page_def)
  from completed_without_result_tick[OF submitted_loop f g]
  show ?thesis using submitted_loop f g t e by simp
qed

text \<open>The claim as stated fails: when the answer \<^verbatim>\<open>completed\<close> without a result comes 92.5
  seconds after the start, the tick records the timeout message as the error.\<close>

theorem completed_without_result_tick_counterexample:
  "intervals submitted 0 = Some first_loop \<and>
   fetchJSON engine (outcome (answered body_completed_bare (1/2) 92500)) = Inr resp_completed_bare \<and>
   get_field resp_completed_bare ''status'' = JStr ''completed'' \<and>
   get_field resp_completed_bare ''result'' = JUndefined \<and>
   error submitted = JStr [] \<and>
   error (tick engine 0 (answered body_completed_bare (1/2) 92500) submitted) =
     JStr ''Evaluation timed out. Please try again later.''"
  by (simp add: run_simps)

end
